theory Spec2Isabelle
  imports Complex_Main "HOL-Library.Word"
begin

section \<open>Outcomes of a C++ computation\<close>

text \<open>
  A C++ function either returns a value, leaves by a thrown exception derived from
  \<open>std::exception\<close> (carrying its \<open>what()\<close> text), or runs into undefined behaviour
  (an unchecked \<open>operator[]\<close> outside the vector, a float-to-int conversion whose
  truncated value does not fit \<open>int\<close>).  Undefined behaviour is kept apart from
  exceptions: the \<open>catch\<close> of \<open>main\<close> handles only the latter.
\<close>

datatype error = Exception string | Undefined

fun ebind :: "error + 'a \<Rightarrow> ('a \<Rightarrow> error + 'b) \<Rightarrow> error + 'b" where
  "ebind (Inl e) f = Inl e"
| "ebind (Inr v) f = f v"

text \<open>\<open>v[i]\<close> on a \<open>std::vector\<close>: unchecked; the index is converted to \<open>size_t\<close>, so a
  negative \<open>int\<close> is out of range as well.\<close>

definition vec_at :: "'a list \<Rightarrow> int \<Rightarrow> error + 'a" where
  "vec_at v i = (if 0 \<le> i \<and> i < int (length v) then Inr (v ! nat i) else Inl Undefined)"

section \<open>The type float\<close>

text \<open>
  A \<open>float\<close> is an IEEE 754 binary32 value: a number, an infinity or a NaN.  Every
  arithmetic operation computes the exact result and rounds it to the nearest binary32
  number, ties going to the even significand, which is what the hardware does in its
  default rounding mode.  The two zeros are one value here: the program never looks at
  the sign of a zero (it divides by converted \<open>int\<close> sizes only, compares with \<open>>=\<close> and
  truncates).

  Binary32 numbers are the multiples \<open>m * q\<close> of a power of two \<open>q\<close> with
  \<open>\<bar>m\<bar> < 2^24\<close>, \<open>q\<close> ranging from \<open>2^-149\<close> to \<open>2^104\<close>.  For \<open>a = \<bar>x\<bar>\<close>,
  \<open>ulp a\<close> is the spacing of these numbers around \<open>a\<close>: the least such \<open>q\<close> with
  \<open>a < 2^24 * q\<close>.  It is searched from \<open>2^-23\<close>, the spacing in \<open>[1, 2)\<close>, upward in at
  most 127 doublings or downward in at most 126 halvings.  The constants are written
  out: \<open>8388608 = 2^23\<close>, \<open>16777216 = 2^24\<close>, \<open>2147483648 = 2^31\<close> and
  \<open>340282366920938463463374607431768211456 = 2^128\<close>.
\<close>

datatype float = Finite real | PlusInf | MinusInf | NaN

definition round_half_even :: "real \<Rightarrow> int" where
  "round_half_even y =
     (let f = \<lfloor>y\<rfloor>; d = y - real_of_int f
      in if d < 1 / 2 then f else if 1 / 2 < d then f + 1 else if even f then f else f + 1)"

primrec grow :: "nat \<Rightarrow> real \<Rightarrow> real \<Rightarrow> real" where
  "grow 0 a q = q"
| "grow (Suc n) a q = (if a < 16777216 * q then q else grow n a (2 * q))"

primrec shrink :: "nat \<Rightarrow> real \<Rightarrow> real \<Rightarrow> real" where
  "shrink 0 a q = q"
| "shrink (Suc n) a q = (if 8388608 * q \<le> a then q else shrink n a (q / 2))"

definition ulp :: "real \<Rightarrow> real" where
  "ulp a = (if 1 \<le> a then grow 127 a (1 / 8388608) else shrink 126 a (1 / 8388608))"

text \<open>\<open>f32 x\<close> is the \<open>float\<close> nearest to the real \<open>x\<close>; a result of magnitude \<open>2^128\<close>
  overflows to an infinity.  A decimal literal such as \<open>0.92f\<close> is \<open>f32 0.92\<close>, and the
  conversion of an \<open>int\<close> \<open>k\<close> is \<open>f32 (real_of_int k)\<close>.\<close>

definition f32 :: "real \<Rightarrow> float" where
  "f32 x =
     (let r = real_of_int (round_half_even (x / ulp \<bar>x\<bar>)) * ulp \<bar>x\<bar>
      in if 340282366920938463463374607431768211456 \<le> r then PlusInf
         else if r \<le> - 340282366920938463463374607431768211456 then MinusInf
         else Finite r)"

fun fmul :: "float \<Rightarrow> float \<Rightarrow> float" where
  "fmul (Finite x) (Finite y) = f32 (x * y)"
| "fmul NaN b = NaN"
| "fmul a NaN = NaN"
| "fmul (Finite x) PlusInf = (if x = 0 then NaN else if 0 < x then PlusInf else MinusInf)"
| "fmul (Finite x) MinusInf = (if x = 0 then NaN else if 0 < x then MinusInf else PlusInf)"
| "fmul PlusInf (Finite y) = (if y = 0 then NaN else if 0 < y then PlusInf else MinusInf)"
| "fmul MinusInf (Finite y) = (if y = 0 then NaN else if 0 < y then MinusInf else PlusInf)"
| "fmul PlusInf PlusInf = PlusInf"
| "fmul PlusInf MinusInf = MinusInf"
| "fmul MinusInf PlusInf = MinusInf"
| "fmul MinusInf MinusInf = PlusInf"

text \<open>Division.  A zero divisor is the positive zero, the only zero a converted \<open>int\<close>
  can be.\<close>

fun fdiv :: "float \<Rightarrow> float \<Rightarrow> float" where
  "fdiv (Finite x) (Finite y) =
     (if y = 0 then (if x = 0 then NaN else if 0 < x then PlusInf else MinusInf)
      else f32 (x / y))"
| "fdiv NaN b = NaN"
| "fdiv a NaN = NaN"
| "fdiv (Finite x) PlusInf = Finite 0"
| "fdiv (Finite x) MinusInf = Finite 0"
| "fdiv PlusInf (Finite y) = (if 0 \<le> y then PlusInf else MinusInf)"
| "fdiv MinusInf (Finite y) = (if 0 \<le> y then MinusInf else PlusInf)"
| "fdiv PlusInf b = NaN"
| "fdiv MinusInf b = NaN"

fun fsub :: "float \<Rightarrow> float \<Rightarrow> float" where
  "fsub (Finite x) (Finite y) = f32 (x - y)"
| "fsub NaN b = NaN"
| "fsub a NaN = NaN"
| "fsub (Finite x) PlusInf = MinusInf"
| "fsub (Finite x) MinusInf = PlusInf"
| "fsub PlusInf PlusInf = NaN"
| "fsub PlusInf b = PlusInf"
| "fsub MinusInf MinusInf = NaN"
| "fsub MinusInf b = MinusInf"

text \<open>\<open>a >= b\<close> and \<open>a < b\<close>: false as soon as one side is a NaN.\<close>

fun fge :: "float \<Rightarrow> float \<Rightarrow> bool" where
  "fge (Finite x) (Finite y) = (y \<le> x)"
| "fge NaN b = False"
| "fge a NaN = False"
| "fge PlusInf b = True"
| "fge a MinusInf = True"
| "fge (Finite x) PlusInf = False"
| "fge MinusInf b = False"

fun flt :: "float \<Rightarrow> float \<Rightarrow> bool" where
  "flt (Finite x) (Finite y) = (x < y)"
| "flt NaN b = False"
| "flt a NaN = False"
| "flt PlusInf b = False"
| "flt a MinusInf = False"
| "flt (Finite x) PlusInf = True"
| "flt MinusInf b = True"

text \<open>Truncation toward zero, and \<open>static_cast<int>\<close> of a \<open>float\<close> (also the implicit
  conversion \<open>int class_id = results[...]\<close>): undefined for a NaN, for an infinity and
  when the truncated value is not a 32-bit \<open>int\<close>.\<close>

definition trunc :: "real \<Rightarrow> int" where
  "trunc v = (if 0 \<le> v then \<lfloor>v\<rfloor> else \<lceil>v\<rceil>)"

definition static_cast_int :: "float \<Rightarrow> error + int" where
  "static_cast_int a =
     (case a of
        Finite v \<Rightarrow>
          if - 2147483648 \<le> trunc v \<and> trunc v < 2147483648 then Inr (trunc v)
          else Inl Undefined
      | _ \<Rightarrow> Inl Undefined)"

section \<open>The class name table\<close>

definition CLASS_NAMES :: "string list" where
  "CLASS_NAMES =
    [''person'', ''bicycle'', ''car'', ''motorcycle'', ''airplane'', ''bus'', ''train'',
     ''truck'', ''boat'', ''traffic light'',
     ''fire hydrant'', ''stop sign'', ''parking meter'', ''bench'', ''bird'', ''cat'',
     ''dog'', ''horse'', ''sheep'', ''cow'',
     ''elephant'', ''bear'', ''zebra'', ''giraffe'', ''backpack'', ''umbrella'',
     ''handbag'', ''tie'', ''suitcase'', ''frisbee'',
     ''skis'', ''snowboard'', ''sports ball'', ''kite'', ''baseball bat'',
     ''baseball glove'', ''skateboard'', ''surfboard'',
     ''tennis racket'', ''bottle'', ''wine glass'', ''cup'', ''fork'', ''knife'',
     ''spoon'', ''bowl'', ''banana'', ''apple'',
     ''sandwich'', ''orange'', ''broccoli'', ''carrot'', ''hot dog'', ''pizza'',
     ''donut'', ''cake'', ''chair'', ''couch'',
     ''potted plant'', ''bed'', ''dining table'', ''toilet'', ''tv'', ''laptop'',
     ''mouse'', ''remote'', ''keyboard'',
     ''cell phone'', ''microwave'', ''oven'', ''toaster'', ''sink'', ''refrigerator'',
     ''book'', ''clock'', ''vase'',
     ''scissors'', ''teddy bear'', ''hair drier'', ''toothbrush'']"

section \<open>Detections\<close>

record Rect =
  rect_x :: int
  rect_y :: int
  rect_width :: int
  rect_height :: int

record Detection =
  confidence :: float
  bbox :: Rect
  class_id :: int
  class_name :: string

section \<open>filterDetections\<close>

text \<open>\<open>static_cast<int>(v * orig_dim / model_dim)\<close> with \<open>v\<close> a \<open>float\<close> and the two
  sizes \<open>int\<close>: each size is converted to \<open>float\<close>, the product is rounded, the quotient
  is rounded, and the result is truncated.  With \<open>model_dim = 0\<close> the quotient is an
  infinity or a NaN, and the conversion is undefined.\<close>

definition scale :: "float \<Rightarrow> int \<Rightarrow> int \<Rightarrow> error + int" where
  "scale v orig_dim model_dim =
     static_cast_int
       (fdiv (fmul v (f32 (real_of_int orig_dim))) (f32 (real_of_int model_dim)))"

text \<open>The body of the \<open>if (confidence >= confidence_threshold)\<close>: the four conversions,
  the table lookup and the \<open>push_back\<close>.  The differences \<open>right - left\<close> and
  \<open>bottom - top\<close> are \<open>float\<close> subtractions, rounded before they are scaled.\<close>

definition push_detection ::
  "float \<Rightarrow> float \<Rightarrow> float \<Rightarrow> float \<Rightarrow> float \<Rightarrow> int \<Rightarrow> int \<Rightarrow> int \<Rightarrow> int \<Rightarrow> int \<Rightarrow>
   Detection list \<Rightarrow> error + Detection list" where
  "push_detection vleft vtop vright vbottom conf cid img_width img_height orig_width
     orig_height detections =
     ebind (scale vleft orig_width img_width) (\<lambda>x.
     ebind (scale vtop orig_height img_height) (\<lambda>y.
     ebind (scale (fsub vright vleft) orig_width img_width) (\<lambda>width.
     ebind (scale (fsub vbottom vtop) orig_height img_height) (\<lambda>height.
     ebind (vec_at CLASS_NAMES cid) (\<lambda>name.
       Inr (detections @
         [\<lparr>confidence = conf,
           bbox = \<lparr>rect_x = x, rect_y = y, rect_width = width, rect_height = height\<rparr>,
           class_id = cid,
           class_name = name\<rparr>]))))))"

text \<open>One iteration of the \<open>for\<close> loop, at index \<open>i\<close>.\<close>

definition loop_body ::
  "float list \<Rightarrow> float \<Rightarrow> int \<Rightarrow> int \<Rightarrow> int \<Rightarrow> int \<Rightarrow> int \<Rightarrow> Detection list \<Rightarrow>
   error + Detection list" where
  "loop_body results confidence_threshold img_width img_height orig_width orig_height i
     detections =
     ebind (vec_at results (i * 6 + 0)) (\<lambda>vleft.
     ebind (vec_at results (i * 6 + 1)) (\<lambda>vtop.
     ebind (vec_at results (i * 6 + 2)) (\<lambda>vright.
     ebind (vec_at results (i * 6 + 3)) (\<lambda>vbottom.
     ebind (vec_at results (i * 6 + 4)) (\<lambda>conf.
     ebind (vec_at results (i * 6 + 5)) (\<lambda>cid_float.
     ebind (static_cast_int cid_float) (\<lambda>cid.
       if fge conf confidence_threshold
       then push_detection vleft vtop vright vbottom conf cid
              img_width img_height orig_width orig_height detections
       else Inr detections)))))))"

text \<open>\<open>for (int i = 0; i < num_detections; ++i)\<close>, from the current \<open>i\<close> on.\<close>

function filterDetections_loop ::
  "float list \<Rightarrow> float \<Rightarrow> int \<Rightarrow> int \<Rightarrow> int \<Rightarrow> int \<Rightarrow> int \<Rightarrow> int \<Rightarrow> Detection list \<Rightarrow>
   error + Detection list" where
  "filterDetections_loop results confidence_threshold img_width img_height orig_width
     orig_height num_detections i detections =
     (if i < num_detections
      then (case loop_body results confidence_threshold img_width img_height orig_width
                   orig_height i detections of
              Inl e \<Rightarrow> Inl e
            | Inr detections' \<Rightarrow>
                filterDetections_loop results confidence_threshold img_width img_height
                  orig_width orig_height num_detections (i + 1) detections')
      else Inr detections)"
  by pat_completeness auto
termination
  by (relation "measure (\<lambda>(_, _, _, _, _, _, n, i, _). nat (n - i))") auto

declare filterDetections_loop.simps [simp del]

text \<open>The number of records is the buffer length divided by six, rounded down
  (\<open>results.size() / 6\<close>); buffers are taken to hold fewer than \<open>2^31\<close> records, so
  that the conversion of the quotient to \<open>int\<close> keeps its value.\<close>

definition filterDetections ::
  "float list \<Rightarrow> float \<Rightarrow> int \<Rightarrow> int \<Rightarrow> int \<Rightarrow> int \<Rightarrow> error + Detection list" where
  "filterDetections results confidence_threshold img_width img_height orig_width orig_height =
     (let num_detections = int (length results div 6)
      in filterDetections_loop results confidence_threshold img_width img_height
           orig_width orig_height num_detections 0 [])"

section \<open>Images and the libraries\<close>

text \<open>A \<open>cv::Mat\<close>: its size, its channel count and its continuous buffer, pixel after
  pixel and row after row, the channels of one pixel side by side.\<close>

type_synonym uchar = "8 word"

record 'a Mat =
  rows :: nat
  cols :: nat
  channels :: nat
  data :: "'a list"

definition empty :: "'a Mat \<Rightarrow> bool" where
  "empty m = (rows m * cols m = 0)"

text \<open>What the image library and the inference runtime do is not code of this program;
  their functions are parameters of the model.  A \<open>string\<close> in a left injection is the
  \<open>what()\<close> of the exception the library throws (\<open>cv::Exception\<close> and
  \<open>Ort::Exception\<close> both derive from \<open>std::exception\<close>).  \<open>imread\<close> gives an empty
  matrix for a file it cannot decode, and the same matrix each time it reads one path:
  the file does not change during the run.  A session is identified by the path of its
  model.\<close>

record world =
  imread :: "string \<Rightarrow> uchar Mat"
  resize :: "uchar Mat \<Rightarrow> int \<Rightarrow> int \<Rightarrow> string + uchar Mat"
  ort_session :: "string \<Rightarrow> string option"
  ort_run :: "string \<Rightarrow> real list \<Rightarrow> int list \<Rightarrow> string + float list"
  to_string :: "float \<Rightarrow> string"
  getTextSize :: "string \<Rightarrow> int \<times> int \<times> int"

definition lib :: "string + 'a \<Rightarrow> error + 'a" where
  "lib r = (case r of Inl what \<Rightarrow> Inl (Exception what) | Inr v \<Rightarrow> Inr v)"

section \<open>preprocessImage\<close>

text \<open>\<open>m.convertTo(m, CV_32F, alpha)\<close>: every element times \<open>alpha\<close>.  The values of
  the input tensor are kept as these exact products: the tensor only passes through the
  program, from the image library to the inference runtime.\<close>

definition convertTo :: "uchar Mat \<Rightarrow> real \<Rightarrow> real Mat" where
  "convertTo m alpha =
     \<lparr>rows = rows m, cols = cols m, channels = channels m,
      data = map (\<lambda>v. real (unat v) * alpha) (data m)\<rparr>"

text \<open>\<open>cv::split\<close>: one single-channel matrix for each channel of the source.\<close>

definition split :: "'a Mat \<Rightarrow> 'a Mat list" where
  "split m =
     map (\<lambda>k. \<lparr>rows = rows m, cols = cols m, channels = 1,
               data = map (\<lambda>p. data m ! (p * channels m + k)) [0..<rows m * cols m]\<rparr>)
       [0..<channels m]"

text \<open>The range \<open>[p, p + n)\<close> of a matrix buffer handed to \<open>insert\<close>: reading past the
  buffer, or a range that ends before it starts, is undefined.\<close>

definition buffer_range :: "'a Mat \<Rightarrow> int \<Rightarrow> error + 'a list" where
  "buffer_range m n =
     (if 0 \<le> n \<and> n \<le> int (length (data m)) then Inr (take (nat n) (data m))
      else Inl Undefined)"

text \<open>\<open>for (int c = 0; c < 3; ++c)\<close>, from the current \<open>c\<close> on.\<close>

function insert_channels ::
  "real Mat list \<Rightarrow> int \<Rightarrow> int \<Rightarrow> real list \<Rightarrow> error + real list" where
  "insert_channels chans n c input_tensor_values =
     (if c < 3
      then (case ebind (vec_at chans c) (\<lambda>plane. buffer_range plane n) of
              Inl e \<Rightarrow> Inl e
            | Inr vals \<Rightarrow> insert_channels chans n (c + 1) (input_tensor_values @ vals))
      else Inr input_tensor_values)"
  by pat_completeness auto
termination
  by (relation "measure (\<lambda>(_, _, c, _). nat (3 - c))") auto

declare insert_channels.simps [simp del]

text \<open>The result goes with the two output parameters \<open>orig_width\<close> and
  \<open>orig_height\<close>.  The destination size is \<open>cv::Size(input_shape[2], input_shape[3])\<close>,
  that is width \<open>input_shape[2]\<close> and height \<open>input_shape[3]\<close>.\<close>

definition preprocessImage ::
  "world \<Rightarrow> string \<Rightarrow> int list \<Rightarrow> error + (real list \<times> int \<times> int)" where
  "preprocessImage w image_path input_shape =
     (let image = imread w image_path in
      if empty image
      then Inl (Exception (''Could not read the image: '' @ image_path))
      else
        let orig_width = int (cols image); orig_height = int (rows image) in
        ebind (vec_at input_shape 2) (\<lambda>s2.
        ebind (vec_at input_shape 3) (\<lambda>s3.
        ebind (lib (resize w image s2 s3)) (\<lambda>resized_image.
          let converted = convertTo resized_image (1 / 255);
              chans = split converted
          in ebind (insert_channels chans (s2 * s3) 0 []) (\<lambda>input_tensor_values.
               Inr (input_tensor_values, orig_width, orig_height))))))"

section \<open>The inference runtime\<close>

definition loadModel :: "world \<Rightarrow> string \<Rightarrow> error + string" where
  "loadModel w model_path =
     (case ort_session w model_path of
        Some what \<Rightarrow> Inl (Exception what)
      | None \<Rightarrow> Inr model_path)"

definition runInference ::
  "world \<Rightarrow> string \<Rightarrow> real list \<Rightarrow> int list \<Rightarrow> error + float list" where
  "runInference w session input_tensor_values input_shape =
     lib (ort_run w session input_tensor_values input_shape)"

section \<open>main\<close>

text \<open>What a run does, in order: the calls \<open>main\<close> makes with their arguments, the lines
  it prints and the file it writes.  Drawing changes the image in memory; the image
  written carries the list of what was drawn on it.\<close>

datatype draw_op =
    Rectangle Rect
  | FilledRectangle "int \<times> int" "int \<times> int"
  | PutText string "int \<times> int"

datatype action =
    LoadModel string
  | Preprocess string "int list"
  | RunInference "int list"
  | ReadImage string
  | Filter float int int int int
  | PrintDetection Detection
  | PrintError string
  | WriteImage string "uchar Mat" "draw_op list"

record run =
  exit_code :: "int option"
  actions :: "action list"

text \<open>The body of the loop over the detections: what it draws for one of them.\<close>

definition draw_detection :: "world \<Rightarrow> Detection \<Rightarrow> draw_op list" where
  "draw_detection w detection =
     (let label = class_name detection @ '': '' @ to_string w (confidence detection);
          (label_width, label_height, baseLine) = getTextSize w label;
          b = bbox detection
      in [Rectangle b,
          FilledRectangle (rect_x b, rect_y b - label_height)
                          (rect_x b + label_width, rect_y b + baseLine),
          PutText label (rect_x b, rect_y b)])"

text \<open>The \<open>try\<close> block: the actions done, and how the block was left.  The image that is
  drawn on and written is read a second time from the image path, after inference.
  \<open>main\<close> does not look at what \<open>cv::imwrite\<close> returns, so the write is recorded as
  made whether or not the file can be written.  The runtime environment and the session
  options, set up before the block, are taken to be constructed without an exception.\<close>

definition try_block :: "world \<Rightarrow> string \<Rightarrow> string \<Rightarrow> action list \<times> (error + unit)" where
  "try_block w model_path image_path =
     (case loadModel w model_path of
        Inl e \<Rightarrow> ([LoadModel model_path], Inl e)
      | Inr session \<Rightarrow>
          let input_shape = [1, 3, 640, 640] in
          (case preprocessImage w image_path input_shape of
             Inl e \<Rightarrow> ([LoadModel model_path, Preprocess image_path input_shape], Inl e)
           | Inr (input_tensor_values, orig_width, orig_height) \<Rightarrow>
               (case runInference w session input_tensor_values input_shape of
                  Inl e \<Rightarrow>
                    ([LoadModel model_path, Preprocess image_path input_shape,
                      RunInference input_shape], Inl e)
                | Inr results \<Rightarrow>
                    let confidence_threshold = f32 0.5;
                        image = imread w image_path;
                        called = [LoadModel model_path, Preprocess image_path input_shape,
                                  RunInference input_shape, ReadImage image_path,
                                  Filter confidence_threshold (input_shape ! 2)
                                    (input_shape ! 3) orig_width orig_height]
                    in (case filterDetections results confidence_threshold
                               (input_shape ! 2) (input_shape ! 3) orig_width orig_height of
                          Inl e \<Rightarrow> (called, Inl e)
                        | Inr detections \<Rightarrow>
                            (called @ map PrintDetection detections @
                               [WriteImage ''result.jpg'' image
                                  (concat (map (draw_detection w) detections))],
                             Inr ())))))"

text \<open>\<open>main\<close>, given \<open>argv[0]\<close> and the arguments after it, so that \<open>argc\<close> is one more
  than the number of arguments.  An exception leaving the \<open>try\<close> block is caught and
  reported; undefined behaviour has no exit code.\<close>

definition main :: "world \<Rightarrow> string \<Rightarrow> string list \<Rightarrow> run" where
  "main w prog args =
     (let argc = 1 + int (length args) in
      if argc \<noteq> 3
      then \<lparr>exit_code = Some 1,
            actions = [PrintError (''Usage: '' @ prog @ '' <model_path> <image_path>'')]\<rparr>
      else
        let model_path = args ! 0; image_path = args ! 1 in
        (case try_block w model_path image_path of
           (acts, Inr _) \<Rightarrow> \<lparr>exit_code = Some 0, actions = acts\<rparr>
         | (acts, Inl (Exception what)) \<Rightarrow>
             \<lparr>exit_code = Some 1, actions = acts @ [PrintError (''Error: '' @ what)]\<rparr>
         | (acts, Inl Undefined) \<Rightarrow> \<lparr>exit_code = None, actions = acts\<rparr>))"

section \<open>Notions used to state the properties\<close>

text \<open>Record number \<open>i\<close> of a raw buffer is the six floats from position \<open>6 * i\<close> on:
  left, top, right, bottom, confidence, class id.  \<open>kept_indices\<close> lists, in increasing
  order, the numbers of the complete records whose confidence reaches the threshold.\<close>

definition kept_indices :: "float list \<Rightarrow> float \<Rightarrow> nat list" where
  "kept_indices results confidence_threshold =
     filter (\<lambda>i. fge (results ! (i * 6 + 4)) confidence_threshold) [0..<length results div 6]"

text \<open>The \<open>int\<close> a \<open>float\<close> truncates to, whether it converts to an \<open>int\<close> at all, and
  the number it stands for.\<close>

definition in_int_range :: "int \<Rightarrow> bool" where
  "in_int_range k = (- 2147483648 \<le> k \<and> k < 2147483648)"

definition int_of :: "float \<Rightarrow> int" where
  "int_of a = (case a of Finite v \<Rightarrow> trunc v | _ \<Rightarrow> 0)"

definition castable :: "float \<Rightarrow> bool" where
  "castable a = (case a of Finite v \<Rightarrow> in_int_range (trunc v) | _ \<Rightarrow> False)"

definition value_of :: "float \<Rightarrow> real" where
  "value_of a = (case a of Finite v \<Rightarrow> v | _ \<Rightarrow> 0)"

definition not_positive :: "float \<Rightarrow> bool" where
  "not_positive a = (case a of Finite v \<Rightarrow> v \<le> 0 | PlusInf \<Rightarrow> False | _ \<Rightarrow> True)"

definition not_negative :: "float \<Rightarrow> bool" where
  "not_negative a = (case a of Finite v \<Rightarrow> 0 \<le> v | MinusInf \<Rightarrow> False | _ \<Rightarrow> True)"

text \<open>A model-space value scaled to the original image, as the program computes it in
  \<open>float\<close>: times the original size, rounded, by the model size, rounded.  The box of
  record \<open>i\<close> has each axis scaled on its own, corner and extent (a rounded \<open>float\<close>
  difference), and truncated toward zero.\<close>

definition scaled :: "float \<Rightarrow> int \<Rightarrow> int \<Rightarrow> float" where
  "scaled v orig_dim model_dim =
     fdiv (fmul v (f32 (real_of_int orig_dim))) (f32 (real_of_int model_dim))"

definition scaled_box :: "float list \<Rightarrow> int \<Rightarrow> int \<Rightarrow> int \<Rightarrow> int \<Rightarrow> nat \<Rightarrow> Rect" where
  "scaled_box results img_width img_height orig_width orig_height i =
     \<lparr>rect_x = int_of (scaled (results ! (i * 6)) orig_width img_width),
      rect_y = int_of (scaled (results ! (i * 6 + 1)) orig_height img_height),
      rect_width =
        int_of (scaled (fsub (results ! (i * 6 + 2)) (results ! (i * 6))) orig_width img_width),
      rect_height =
        int_of (scaled (fsub (results ! (i * 6 + 3)) (results ! (i * 6 + 1)))
                  orig_height img_height)\<rparr>"

definition detection_at :: "float list \<Rightarrow> int \<Rightarrow> int \<Rightarrow> int \<Rightarrow> int \<Rightarrow> nat \<Rightarrow> Detection" where
  "detection_at results img_width img_height orig_width orig_height i =
     \<lparr>confidence = results ! (i * 6 + 4),
      bbox = scaled_box results img_width img_height orig_width orig_height i,
      class_id = int_of (results ! (i * 6 + 5)),
      class_name = CLASS_NAMES ! nat (int_of (results ! (i * 6 + 5)))\<rparr>"

text \<open>When the loop passes record \<open>i\<close> without undefined behaviour: its class id
  converts to an \<open>int\<close>, and if the record is kept the four scaled values convert to
  \<open>int\<close> and the class id is an index of the table.\<close>

definition record_defined ::
  "float list \<Rightarrow> float \<Rightarrow> int \<Rightarrow> int \<Rightarrow> int \<Rightarrow> int \<Rightarrow> nat \<Rightarrow> bool" where
  "record_defined results confidence_threshold img_width img_height orig_width orig_height i =
     (castable (results ! (i * 6 + 5)) \<and>
      (fge (results ! (i * 6 + 4)) confidence_threshold \<longrightarrow>
         castable (scaled (results ! (i * 6)) orig_width img_width) \<and>
         castable (scaled (results ! (i * 6 + 1)) orig_height img_height) \<and>
         castable (scaled (fsub (results ! (i * 6 + 2)) (results ! (i * 6)))
                     orig_width img_width) \<and>
         castable (scaled (fsub (results ! (i * 6 + 3)) (results ! (i * 6 + 1)))
                     orig_height img_height) \<and>
         0 \<le> int_of (results ! (i * 6 + 5)) \<and> int_of (results ! (i * 6 + 5)) < 80))"

text \<open>Plane \<open>c\<close> of a three-channel 8-bit matrix, normalised: the values of channel
  \<open>c\<close>, pixel after pixel, each divided by 255.\<close>

definition plane :: "uchar Mat \<Rightarrow> nat \<Rightarrow> real list" where
  "plane m c = map (\<lambda>p. real (unat (data m ! (p * 3 + c))) / 255) [0..<rows m * cols m]"

text \<open>What is asked of \<open>cv::resize\<close>: a continuous three-channel matrix of the
  destination size.\<close>

definition resized_to :: "uchar Mat \<Rightarrow> int \<Rightarrow> int \<Rightarrow> bool" where
  "resized_to m dst_width dst_height =
     (0 \<le> dst_width \<and> 0 \<le> dst_height \<and> cols m = nat dst_width \<and> rows m = nat dst_height \<and>
      channels m = 3 \<and> length (data m) = rows m * cols m * 3)"

text \<open>An image of one colour, and a world in which every file holds such an image of
  1280 by 720 pixels, resizing keeps the colour, and every model answers with the same
  buffer.\<close>

definition solid :: "nat \<Rightarrow> nat \<Rightarrow> uchar \<Rightarrow> uchar \<Rightarrow> uchar \<Rightarrow> uchar Mat" where
  "solid h w c0 c1 c2 =
     \<lparr>rows = h, cols = w, channels = 3, data = concat (replicate (h * w) [c0, c1, c2])\<rparr>"

definition solid_world :: "float list \<Rightarrow> world" where
  "solid_world output =
     \<lparr>imread = (\<lambda>_. solid 720 1280 10 20 30),
      resize = (\<lambda>_ dst_width dst_height. Inr (solid (nat dst_height) (nat dst_width) 10 20 30)),
      ort_session = (\<lambda>_. None),
      ort_run = (\<lambda>_ _ _. Inr output),
      to_string = (\<lambda>_. ''0.920000''),
      getTextSize = (\<lambda>_. (100, 12, 4))\<rparr>"



text \<open>What the entry point fixes: the shape handed to preprocessing and inference, and
  the threshold and model size handed to filtering.\<close>

definition uses_fixed_constants :: "action \<Rightarrow> bool" where
  "uses_fixed_constants a =
     (case a of
        Preprocess _ shape \<Rightarrow> shape = [1, 3, 640, 640]
      | RunInference shape \<Rightarrow> shape = [1, 3, 640, 640]
      | Filter th w h _ _ \<Rightarrow> th = Finite (1 / 2) \<and> w = 640 \<and> h = 640
      | _ \<Rightarrow> True)"

section \<open>Rounding keeps the sign\<close>

lemma grow_pos: "0 < q \<Longrightarrow> 0 < grow n a q"
  by (induction n arbitrary: q) simp_all

lemma shrink_pos: "0 < q \<Longrightarrow> 0 < shrink n a q"
  by (induction n arbitrary: q) simp_all

lemma ulp_pos: "0 < ulp a"
  by (simp add: ulp_def grow_pos shrink_pos)

lemma round_half_even_nonneg: "0 \<le> y \<Longrightarrow> 0 \<le> round_half_even y"
  by (simp add: round_half_even_def Let_def)

lemma round_half_even_nonpos:
  assumes "y \<le> 0"
  shows "round_half_even y \<le> 0"
proof (cases "y - real_of_int \<lfloor>y\<rfloor> < 1 / 2")
  case True
  with assms show ?thesis by (simp add: round_half_even_def Let_def floor_le_iff)
next
  case False
  then have "real_of_int \<lfloor>y\<rfloor> + 1 / 2 \<le> y" by simp
  with assms have "real_of_int \<lfloor>y\<rfloor> < 0" by linarith
  then have "\<lfloor>y\<rfloor> + 1 \<le> 0" by linarith
  moreover have "\<lfloor>y\<rfloor> \<le> 0" using assms by (simp add: floor_le_iff)
  ultimately show ?thesis by (simp add: round_half_even_def Let_def)
qed

lemma f32_not_negative: "0 \<le> x \<Longrightarrow> not_negative (f32 x)"
proof -
  assume x: "0 \<le> x"
  have "0 \<le> x / ulp \<bar>x\<bar>" using x ulp_pos[of "\<bar>x\<bar>"] by simp
  then have "0 \<le> round_half_even (x / ulp \<bar>x\<bar>)" by (rule round_half_even_nonneg)
  then have "0 \<le> real_of_int (round_half_even (x / ulp \<bar>x\<bar>)) * ulp \<bar>x\<bar>"
    using ulp_pos[of "\<bar>x\<bar>"] by simp
  then show ?thesis by (simp add: f32_def Let_def not_negative_def)
qed

lemma f32_not_positive: "x \<le> 0 \<Longrightarrow> not_positive (f32 x)"
proof -
  assume x: "x \<le> 0"
  have "x / ulp \<bar>x\<bar> \<le> 0" using x ulp_pos[of "\<bar>x\<bar>"] by (simp add: divide_nonpos_pos)
  then have "round_half_even (x / ulp \<bar>x\<bar>) \<le> 0" by (rule round_half_even_nonpos)
  then have "real_of_int (round_half_even (x / ulp \<bar>x\<bar>)) * ulp \<bar>x\<bar> \<le> 0"
    using ulp_pos[of "\<bar>x\<bar>"] by (simp add: mult_nonpos_nonneg)
  then show ?thesis by (simp add: f32_def Let_def not_positive_def)
qed

lemma fsub_not_positive: "flt a b \<Longrightarrow> not_positive (fsub a b)"
  by (cases a; cases b) (simp_all add: f32_not_positive, simp_all add: not_positive_def)

lemma fmul_not_positive: "not_positive a \<Longrightarrow> not_negative b \<Longrightarrow> not_positive (fmul a b)"
proof (cases a; cases b)
  fix x y assume ab: "a = Finite x" "b = Finite y" and s: "not_positive a" "not_negative b"
  from ab s have "x * y \<le> 0"
    by (simp add: not_positive_def not_negative_def mult_nonpos_nonneg)
  then have "not_positive (f32 (x * y))" by (rule f32_not_positive)
  then show ?thesis using ab by simp
qed (auto simp: not_positive_def not_negative_def)

lemma fdiv_not_positive: "not_positive a \<Longrightarrow> not_negative b \<Longrightarrow> not_positive (fdiv a b)"
proof (cases a; cases b)
  fix x y assume ab: "a = Finite x" "b = Finite y" and s: "not_positive a" "not_negative b"
  show ?thesis
  proof (cases "y = 0")
    case True
    with ab s show ?thesis by (simp add: not_positive_def)
  next
    case False
    with ab s have "x / y \<le> 0"
      by (simp add: not_positive_def not_negative_def divide_nonpos_pos)
    then have "not_positive (f32 (x / y))" by (rule f32_not_positive)
    then show ?thesis using ab False by simp
  qed
qed (auto simp: not_positive_def not_negative_def)

lemma int_of_not_positive: "not_positive a \<Longrightarrow> int_of a \<le> 0"
  by (cases a) (auto simp: not_positive_def int_of_def trunc_def ceiling_le_iff)

lemma scaled_not_positive:
  assumes "not_positive v" "0 \<le> orig_dim" "0 \<le> model_dim"
  shows "int_of (scaled v orig_dim model_dim) \<le> 0"
  unfolding scaled_def
  by (intro int_of_not_positive fdiv_not_positive fmul_not_positive f32_not_negative assms)
     (simp_all add: assms)

section \<open>Evaluating float expressions\<close>

lemma grow_numeral:
  "grow (numeral k) a q = (if a < 16777216 * q then q else grow (pred_numeral k) a (2 * q))"
  by (simp add: numeral_eq_Suc)

lemma shrink_numeral:
  "shrink (numeral k) a q = (if 8388608 * q \<le> a then q else shrink (pred_numeral k) a (q / 2))"
  by (simp add: numeral_eq_Suc)

lemmas f32_eval = f32_def ulp_def round_half_even_def Let_def grow_numeral shrink_numeral

lemmas filterDetections_eval =
  filterDetections_def filterDetections_loop.simps loop_body_def push_detection_def scale_def
  static_cast_int_def vec_at_def trunc_def ceiling_def CLASS_NAMES_def f32_eval

lemma f32_half: "f32 (1 / 2) = Finite (1 / 2)"
  by (simp add: f32_eval)

section \<open>The loop of filterDetections, record by record\<close>

lemma ebind_Inr_iff: "ebind m f = Inr r \<longleftrightarrow> (\<exists>v. m = Inr v \<and> f v = Inr r)"
  by (cases m) simp_all

lemma ebind_Exception_iff:
  "ebind m f = Inl (Exception s) \<longleftrightarrow>
     m = Inl (Exception s) \<or> (\<exists>v. m = Inr v \<and> f v = Inl (Exception s))"
  by (cases m) simp_all

lemma vec_at_Inr_iff: "vec_at v i = Inr a \<longleftrightarrow> 0 \<le> i \<and> i < int (length v) \<and> a = v ! nat i"
  by (auto simp: vec_at_def)

lemma vec_at_no_exception: "vec_at v i \<noteq> Inl (Exception s)"
  by (simp add: vec_at_def)

lemma static_cast_int_Inr_iff:
  "static_cast_int a = Inr k \<longleftrightarrow> castable a \<and> k = int_of a"
  by (cases a) (auto simp: static_cast_int_def castable_def int_of_def in_int_range_def)

lemma static_cast_int_no_exception: "static_cast_int a \<noteq> Inl (Exception s)"
  by (cases a) (simp_all add: static_cast_int_def)

lemma scale_Inr_iff:
  "scale v od md = Inr k \<longleftrightarrow> castable (scaled v od md) \<and> k = int_of (scaled v od md)"
  by (simp add: scale_def scaled_def static_cast_int_Inr_iff)

lemma scale_no_exception: "scale v od md \<noteq> Inl (Exception s)"
  by (simp add: scale_def static_cast_int_no_exception)

lemma length_CLASS_NAMES: "length CLASS_NAMES = 80"
  by (simp add: CLASS_NAMES_def)

lemma push_detection_Inr_iff:
  "push_detection l t r b conf cid iw ih ow oh dets = Inr dets' \<longleftrightarrow>
     castable (scaled l ow iw) \<and> castable (scaled t oh ih) \<and>
     castable (scaled (fsub r l) ow iw) \<and> castable (scaled (fsub b t) oh ih) \<and>
     0 \<le> cid \<and> cid < 80 \<and>
     dets' = dets @
       [\<lparr>confidence = conf,
         bbox = \<lparr>rect_x = int_of (scaled l ow iw),
                  rect_y = int_of (scaled t oh ih),
                  rect_width = int_of (scaled (fsub r l) ow iw),
                  rect_height = int_of (scaled (fsub b t) oh ih)\<rparr>,
         class_id = cid, class_name = CLASS_NAMES ! nat cid\<rparr>]"
  unfolding push_detection_def ebind_Inr_iff scale_Inr_iff vec_at_Inr_iff length_CLASS_NAMES
  by auto

lemma push_detection_no_exception:
  "push_detection l t r b conf cid iw ih ow oh dets \<noteq> Inl (Exception s)"
  unfolding push_detection_def ebind_Exception_iff
  by (simp add: scale_no_exception vec_at_no_exception)

lemma loop_body_Inr_iff:
  assumes "j < length results div 6"
  shows "loop_body results th iw ih ow oh (int j) dets = Inr dets' \<longleftrightarrow>
     record_defined results th iw ih ow oh j \<and>
     dets' = (if fge (results ! (j * 6 + 4)) th
              then dets @ [detection_at results iw ih ow oh j] else dets)"
proof -
  from assms have len: "j * 6 + 5 < length results" by arith
  have idx: "vec_at results (int j * 6 + int k) = Inr (results ! (j * 6 + k))" if "k \<le> 5" for k
    using len that by (simp add: vec_at_def nat_add_distrib nat_mult_distrib)
  have idx0: "vec_at results (int j * 6 + 0) = Inr (results ! (j * 6))"
    using idx[of 0] by simp
  have idxs: "vec_at results (int j * 6 + 1) = Inr (results ! (j * 6 + 1))"
    "vec_at results (int j * 6 + 2) = Inr (results ! (j * 6 + 2))"
    "vec_at results (int j * 6 + 3) = Inr (results ! (j * 6 + 3))"
    "vec_at results (int j * 6 + 4) = Inr (results ! (j * 6 + 4))"
    "vec_at results (int j * 6 + 5) = Inr (results ! (j * 6 + 5))"
    using idx[of 1] idx[of 2] idx[of 3] idx[of 4] idx[of 5] by simp_all
  show ?thesis
    unfolding loop_body_def idx0 idxs ebind.simps ebind_Inr_iff static_cast_int_Inr_iff
    by (auto simp: record_defined_def push_detection_Inr_iff detection_at_def scaled_box_def)
qed

lemma loop_body_no_exception:
  "loop_body results th iw ih ow oh i dets \<noteq> Inl (Exception s)"
  unfolding loop_body_def ebind_Exception_iff
  by (simp add: vec_at_no_exception static_cast_int_no_exception push_detection_no_exception)

lemma all_from:
  assumes "0 \<le> i" "i < n"
  shows "(\<forall>j. nat i \<le> j \<and> j < nat n \<longrightarrow> P j) \<longleftrightarrow>
         P (nat i) \<and> (\<forall>j. nat (i + 1) \<le> j \<and> j < nat n \<longrightarrow> P j)"
proof -
  have s: "nat (i + 1) = Suc (nat i)" using assms(1) by simp
  have l: "nat i < nat n" using assms by simp
  show ?thesis
  proof
    assume a: "\<forall>j. nat i \<le> j \<and> j < nat n \<longrightarrow> P j"
    then have "P (nat i)" using l by simp
    moreover have "\<forall>j. nat (i + 1) \<le> j \<and> j < nat n \<longrightarrow> P j" using a s by simp
    ultimately show "P (nat i) \<and> (\<forall>j. nat (i + 1) \<le> j \<and> j < nat n \<longrightarrow> P j)" by simp
  next
    assume a: "P (nat i) \<and> (\<forall>j. nat (i + 1) \<le> j \<and> j < nat n \<longrightarrow> P j)"
    show "\<forall>j. nat i \<le> j \<and> j < nat n \<longrightarrow> P j"
    proof (intro allI impI)
      fix j assume j: "nat i \<le> j \<and> j < nat n"
      show "P j"
      proof (cases "j = nat i")
        case True with a show ?thesis by simp
      next
        case False
        with j s have "nat (i + 1) \<le> j" by simp
        with a j show ?thesis by simp
      qed
    qed
  qed
qed

lemma loop_Inr_iff:
  "0 \<le> i \<Longrightarrow> n \<le> int (length results div 6) \<Longrightarrow>
   filterDetections_loop results th iw ih ow oh n i dets = Inr ds \<longleftrightarrow>
     (\<forall>j. nat i \<le> j \<and> j < nat n \<longrightarrow> record_defined results th iw ih ow oh j) \<and>
     ds = dets @ map (detection_at results iw ih ow oh)
                  (filter (\<lambda>j. fge (results ! (j * 6 + 4)) th) [nat i..<nat n])"
proof (induction results th iw ih ow oh n i dets rule: filterDetections_loop.induct)
  case (1 results th iw ih ow oh n i dets)
  show ?case
  proof (cases "i < n")
    case False
    then have e: "filterDetections_loop results th iw ih ow oh n i dets = Inr dets"
      by (subst filterDetections_loop.simps) simp
    from False have "nat n \<le> nat i" by simp
    then show ?thesis unfolding e by auto
  next
    case True
    let ?d' = "if fge (results ! (nat i * 6 + 4)) th
               then dets @ [detection_at results iw ih ow oh (nat i)] else dets"
    have j: "nat i < length results div 6" using True "1.prems" by linarith
    have u: "[nat i..<nat n] = nat i # [nat (i + 1)..<nat n]"
      using True "1.prems"(1) by (simp add: upt_conv_Cons nat_add_distrib)
    note all = all_from[OF "1.prems"(1) True, of "record_defined results th iw ih ow oh"]
    have b: "loop_body results th iw ih ow oh i dets = Inr d \<longleftrightarrow>
               record_defined results th iw ih ow oh (nat i) \<and> d = ?d'" for d
      using loop_body_Inr_iff[OF j, of th iw ih ow oh dets d] "1.prems"(1) by simp
    show ?thesis
    proof (cases "loop_body results th iw ih ow oh i dets")
      case (Inl e)
      then have nd: "\<not> record_defined results th iw ih ow oh (nat i)"
        using b[of ?d'] by simp
      have "filterDetections_loop results th iw ih ow oh n i dets = Inl e"
        using True Inl by (subst filterDetections_loop.simps) simp
      then show ?thesis using nd all by simp
    next
      case (Inr d)
      then have rd: "record_defined results th iw ih ow oh (nat i)" and d: "d = ?d'"
        using b[of d] by simp_all
      have ih': "filterDetections_loop results th iw ih ow oh n (i + 1) d = Inr ds \<longleftrightarrow>
          (\<forall>j. nat (i + 1) \<le> j \<and> j < nat n \<longrightarrow> record_defined results th iw ih ow oh j) \<and>
          ds = d @ map (detection_at results iw ih ow oh)
                  (filter (\<lambda>j. fge (results ! (j * 6 + 4)) th) [nat (i + 1)..<nat n])"
        using "1.IH"[OF True Inr] "1.prems" by simp
      have e: "filterDetections_loop results th iw ih ow oh n i dets =
               filterDetections_loop results th iw ih ow oh n (i + 1) d"
        using True Inr by (subst filterDetections_loop.simps) simp
      have t: "d @ map (detection_at results iw ih ow oh)
                  (filter (\<lambda>j. fge (results ! (j * 6 + 4)) th) [nat (i + 1)..<nat n]) =
               dets @ map (detection_at results iw ih ow oh)
                  (filter (\<lambda>j. fge (results ! (j * 6 + 4)) th) [nat i..<nat n])"
        unfolding u d by simp
      show ?thesis unfolding e ih' all t using rd by simp
    qed
  qed
qed

lemma loop_no_exception:
  "filterDetections_loop results th iw ih ow oh n i dets \<noteq> Inl (Exception s)"
proof (induction results th iw ih ow oh n i dets rule: filterDetections_loop.induct)
  case (1 results th iw ih ow oh n i dets)
  show ?case
  proof (cases "i < n")
    case False
    then show ?thesis by (subst filterDetections_loop.simps) simp
  next
    case True
    show ?thesis
    proof (cases "loop_body results th iw ih ow oh i dets")
      case (Inl e)
      with True loop_body_no_exception[of results th iw ih ow oh i dets s] show ?thesis
        by (subst filterDetections_loop.simps) auto
    next
      case (Inr d)
      with True "1.IH"[OF True Inr] show ?thesis
        by (subst filterDetections_loop.simps) simp
    qed
  qed
qed

lemma filterDetections_Inr_iff:
  "filterDetections results th iw ih ow oh = Inr ds \<longleftrightarrow>
     (\<forall>i < length results div 6. record_defined results th iw ih ow oh i) \<and>
     ds = map (detection_at results iw ih ow oh) (kept_indices results th)"
  using loop_Inr_iff[of 0 "int (length results div 6)" results th iw ih ow oh "[]" ds]
  by (simp add: filterDetections_def kept_indices_def)

lemma filterDetections_no_exception:
  "filterDetections results th iw ih ow oh \<noteq> Inl (Exception s)"
  by (simp add: filterDetections_def Let_def loop_no_exception)


section \<open>The planes built by preprocessImage\<close>


lemma length_concat_replicate3: "length (concat (replicate n [c0, c1, c2])) = n * 3"
  by (induction n) simp_all


lemma resized_to_solid: "0 \<le> dw \<Longrightarrow> 0 \<le> dh \<Longrightarrow> resized_to (solid (nat dh) (nat dw) c0 c1 c2) dw dh"
  by (simp add: resized_to_def solid_def length_concat_replicate3)

lemma split_convertTo_nth:
  assumes "channels m = 3" "c < 3" "length (data m) = rows m * cols m * 3"
  shows "split (convertTo m (1 / 255)) ! c =
           \<lparr>rows = rows m, cols = cols m, channels = 1, data = plane m c\<rparr>"
  using assms by (simp add: split_def convertTo_def plane_def)

lemma length_split_convertTo: "length (split (convertTo m a)) = channels m"
  by (simp add: split_def convertTo_def)

lemma length_plane: "length (plane m c) = rows m * cols m"
  by (simp add: plane_def)

lemma channel_range:
  assumes "resized_to m dw dh" "0 \<le> c" "c < 3"
  shows "ebind (vec_at (split (convertTo m (1 / 255))) c) (\<lambda>pl. buffer_range pl (dw * dh))
         = Inr (plane m (nat c))"
proof -
  from assms have n: "nat c < 3" by simp
  have l: "length (data m) = rows m * cols m * 3" and ch: "channels m = 3"
    using assms(1) by (simp_all add: resized_to_def)
  have sz: "dw * dh = int (rows m * cols m)"
    using assms(1) by (simp add: resized_to_def mult.commute)
  show ?thesis
    using assms(2,3) split_convertTo_nth[OF ch n l]
    by (simp add: vec_at_def length_split_convertTo ch buffer_range_def sz length_plane
        nat_mult_distrib)
qed

lemma insert_channels_planes:
  assumes "resized_to m dw dh"
  shows "insert_channels (split (convertTo m (1 / 255))) (dw * dh) 0 [] =
           Inr (plane m 0 @ plane m 1 @ plane m 2)"
proof -
  let ?ch = "split (convertTo m (1 / 255))"
  have s: "insert_channels ?ch (dw * dh) 3 acc = Inr acc" for acc
    by (subst insert_channels.simps) simp
  have "insert_channels ?ch (dw * dh) 2 acc = Inr (acc @ plane m 2)" for acc
    by (subst insert_channels.simps) (simp add: channel_range[OF assms] s)
  then have "insert_channels ?ch (dw * dh) 1 acc = Inr (acc @ plane m 1 @ plane m 2)" for acc
    by (subst insert_channels.simps) (simp add: channel_range[OF assms])
  then show ?thesis
    by (subst insert_channels.simps) (simp add: channel_range[OF assms])
qed

lemma preprocessImage_planes:
  assumes "\<not> empty (imread w image_path)"
    and "4 \<le> length input_shape"
    and "resize w (imread w image_path) (input_shape ! 2) (input_shape ! 3) = Inr m"
    and "resized_to m (input_shape ! 2) (input_shape ! 3)"
  shows "preprocessImage w image_path input_shape =
           Inr (plane m 0 @ plane m 1 @ plane m 2,
                int (cols (imread w image_path)), int (rows (imread w image_path)))"
  using assms(1,2,3) insert_channels_planes[OF assms(4)]
  by (simp add: preprocessImage_def Let_def vec_at_def lib_def)


section \<open>The kept records\<close>

lemma sorted_kept_indices: "sorted_wrt (<) (kept_indices results th)"
  by (simp add: kept_indices_def sorted_wrt_filter)

lemma set_kept_indices:
  "set (kept_indices results th) =
     {i. i < length results div 6 \<and> fge (results ! (i * 6 + 4)) th}"
  by (auto simp: kept_indices_def)

lemma filterDetections_undefined:
  assumes "\<not> (\<forall>i < length results div 6. record_defined results th iw ih ow oh i)"
  shows "filterDetections results th iw ih ow oh = Inl Undefined"
proof (cases "filterDetections results th iw ih ow oh")
  case (Inr ds)
  then have "\<forall>i < length results div 6. record_defined results th iw ih ow oh i"
    unfolding filterDetections_Inr_iff by blast
  with assms show ?thesis by blast
next
  case (Inl e)
  with filterDetections_no_exception[of results th iw ih ow oh] show ?thesis
    by (cases e) auto
qed

lemma filterDetections_defined:
  assumes "\<forall>i < length results div 6. record_defined results th iw ih ow oh i"
  shows "filterDetections results th iw ih ow oh =
           Inr (map (detection_at results iw ih ow oh) (kept_indices results th))"
  using assms by (simp add: filterDetections_Inr_iff)

section \<open>Filtering by confidence\<close>

text \<open>Claim C1.  For every buffer and every threshold: when the loop passes every
  complete record without undefined behaviour, \<open>filterDetections\<close> returns, and what it
  returns holds one detection for each complete record whose confidence is at least the
  threshold and none for the others.  The confidences of the detections are the
  confidences of those records, in their order; every returned detection has a confidence
  at least the threshold; and a record has its detection in the result if and only if its
  confidence is at least the threshold (the comparison is \<open>>=\<close>, inclusive).  On any
  other buffer the behaviour is undefined and no detection is returned.\<close>

theorem filterDetections_keeps_iff_threshold_reached:
  "((\<forall>i < length results div 6. record_defined results th iw ih ow oh i) \<longrightarrow>
      (\<exists>ds. filterDetections results th iw ih ow oh = Inr ds \<and>
         map confidence ds =
           filter (\<lambda>c. fge c th)
             (map (\<lambda>i. results ! (i * 6 + 4)) [0..<length results div 6]) \<and>
         (\<forall>d \<in> set ds. fge (confidence d) th) \<and>
         (\<forall>i < length results div 6.
            fge (results ! (i * 6 + 4)) th \<longleftrightarrow>
            detection_at results iw ih ow oh i \<in> set ds))) \<and>
   (\<not> (\<forall>i < length results div 6. record_defined results th iw ih ow oh i) \<longrightarrow>
      filterDetections results th iw ih ow oh = Inl Undefined)"
proof (intro conjI impI)
  assume "\<not> (\<forall>i < length results div 6. record_defined results th iw ih ow oh i)"
  then show "filterDetections results th iw ih ow oh = Inl Undefined"
    by (rule filterDetections_undefined)
next
  assume defined: "\<forall>i < length results div 6. record_defined results th iw ih ow oh i"
  let ?ds = "map (detection_at results iw ih ow oh) (kept_indices results th)"
  have r: "filterDetections results th iw ih ow oh = Inr ?ds"
    using defined by (rule filterDetections_defined)
  have c: "confidence (detection_at results iw ih ow oh i) = results ! (i * 6 + 4)" for i
    by (simp add: detection_at_def)
  have m: "map confidence ?ds =
        filter (\<lambda>c. fge c th) (map (\<lambda>i. results ! (i * 6 + 4)) [0..<length results div 6])"
    by (simp add: kept_indices_def filter_map o_def c)
  have a: "\<forall>d \<in> set ?ds. fge (confidence d) th"
    by (auto simp: c set_kept_indices)
  have k: "fge (results ! (i * 6 + 4)) th \<longleftrightarrow> detection_at results iw ih ow oh i \<in> set ?ds"
    if "i < length results div 6" for i
  proof
    assume "fge (results ! (i * 6 + 4)) th"
    with that have "i \<in> set (kept_indices results th)" by (simp add: set_kept_indices)
    then show "detection_at results iw ih ow oh i \<in> set ?ds" by simp
  next
    assume "detection_at results iw ih ow oh i \<in> set ?ds"
    with a have "fge (confidence (detection_at results iw ih ow oh i)) th" by blast
    then show "fge (results ! (i * 6 + 4)) th" by (simp add: c)
  qed
  from r m a k show "\<exists>ds. filterDetections results th iw ih ow oh = Inr ds \<and>
         map confidence ds =
           filter (\<lambda>c. fge c th)
             (map (\<lambda>i. results ! (i * 6 + 4)) [0..<length results div 6]) \<and>
         (\<forall>d \<in> set ds. fge (confidence d) th) \<and>
         (\<forall>i < length results div 6.
            fge (results ! (i * 6 + 4)) th \<longleftrightarrow>
            detection_at results iw ih ow oh i \<in> set ds)"
    by blast
qed

text \<open>Two records with confidences 0.3 and 0.5 at threshold 0.5: the first is dropped,
  the second, exactly at the threshold, is kept.\<close>

theorem filterDetections_keeps_iff_threshold_reached_witness:
  "filterDetections (map f32 [0, 0, 10, 10, 0.3, 1, 5, 5, 20, 20, 0.5, 2]) (f32 0.5)
     640 640 640 640 =
     Inr [\<lparr>confidence = f32 0.5,
           bbox = \<lparr>rect_x = 5, rect_y = 5, rect_width = 15, rect_height = 15\<rparr>,
           class_id = 2, class_name = ''car''\<rparr>] \<and>
   [f32 0.5] =
     filter (\<lambda>c. fge c (f32 0.5))
       (map (\<lambda>i. map f32 [0, 0, 10, 10, 0.3, 1, 5, 5, 20, 20, 0.5, 2] ! (i * 6 + 4))
          [0..<length (map f32 [0, 0, 10, 10, 0.3, 1, 5, 5, 20, 20, 0.5, 2]) div 6])"
proof -
  let ?r = "map f32 [0, 0, 10, 10, 0.3, 1, 5, 5, 20, 20, 0.5, 2]"
  let ?d = "\<lparr>confidence = f32 0.5,
           bbox = \<lparr>rect_x = 5, rect_y = 5, rect_width = 15, rect_height = 15\<rparr>,
           class_id = 2, class_name = ''car''\<rparr>"
  have e: "filterDetections ?r (f32 0.5) 640 640 640 640 = Inr [?d]"
    by (simp add: filterDetections_eval)
  then have d: "\<forall>i < length ?r div 6. record_defined ?r (f32 0.5) 640 640 640 640 i"
    unfolding filterDetections_Inr_iff by blast
  from filterDetections_keeps_iff_threshold_reached[of ?r "f32 0.5" 640 640 640 640] d
  obtain ds where
    "filterDetections ?r (f32 0.5) 640 640 640 640 = Inr ds"
    "map confidence ds =
       filter (\<lambda>c. fge c (f32 0.5)) (map (\<lambda>i. ?r ! (i * 6 + 4)) [0..<length ?r div 6])"
    by blast
  with e show ?thesis by auto
qed

section \<open>Mapping boxes back to the original image\<close>

text \<open>Claim C2, as amended.  On every buffer that the loop passes without undefined
  behaviour, \<open>filterDetections\<close> returns, and the boxes of the detections are, for the
  kept records in order, the scaling of each axis on its own, computed in \<open>float\<close> with
  a rounding after every operation and then truncated toward zero:
  \<open>x = trunc (fl (fl (left * fl Wo) / fl Wm))\<close>, \<open>y\<close> likewise from \<open>top\<close>, \<open>Ho\<close> and
  \<open>Hm\<close>, \<open>width = trunc (fl (fl (fl (right - left) * fl Wo) / fl Wm))\<close> and \<open>height\<close>
  likewise, \<open>fl\<close> being the rounding to \<open>float\<close>.  For a 1280 by 720 image, model size
  640 by 640 and the single record \<open>[320, 180, 640, 360, 0.92, 0]\<close> at threshold 0.5 the
  result is the one detection of class 0 (person), confidence \<open>0.92f\<close> and box
  \<open>(640, 202, 640, 202)\<close>.\<close>

theorem filterDetections_box_is_scaled_and_truncated:
  assumes "\<forall>i < length results div 6. record_defined results th Wm Hm Wo Ho i"
  shows "(\<exists>ds. filterDetections results th Wm Hm Wo Ho = Inr ds \<and>
           map bbox ds =
             map (\<lambda>i.
                 \<lparr>rect_x = int_of (fdiv (fmul (results ! (i * 6)) (f32 (real_of_int Wo)))
                                     (f32 (real_of_int Wm))),
                  rect_y = int_of (fdiv (fmul (results ! (i * 6 + 1)) (f32 (real_of_int Ho)))
                                     (f32 (real_of_int Hm))),
                  rect_width =
                    int_of (fdiv (fmul (fsub (results ! (i * 6 + 2)) (results ! (i * 6)))
                                    (f32 (real_of_int Wo)))
                              (f32 (real_of_int Wm))),
                  rect_height =
                    int_of (fdiv (fmul (fsub (results ! (i * 6 + 3)) (results ! (i * 6 + 1)))
                                    (f32 (real_of_int Ho)))
                              (f32 (real_of_int Hm)))\<rparr>)
               (kept_indices results th)) \<and>
         filterDetections (map f32 [320, 180, 640, 360, 0.92, 0]) (f32 0.5) 640 640 1280 720 =
           Inr [\<lparr>confidence = f32 0.92,
                 bbox = \<lparr>rect_x = 640, rect_y = 202, rect_width = 640, rect_height = 202\<rparr>,
                 class_id = 0, class_name = ''person''\<rparr>]"
proof -
  let ?ds = "map (detection_at results Wm Hm Wo Ho) (kept_indices results th)"
  have r: "filterDetections results th Wm Hm Wo Ho = Inr ?ds"
    using assms by (rule filterDetections_defined)
  have b: "map bbox ?ds = map (scaled_box results Wm Hm Wo Ho) (kept_indices results th)"
    by (simp add: detection_at_def o_def)
  have e: "filterDetections (map f32 [320, 180, 640, 360, 0.92, 0]) (f32 0.5) 640 640 1280 720 =
           Inr [\<lparr>confidence = f32 0.92,
                 bbox = \<lparr>rect_x = 640, rect_y = 202, rect_width = 640, rect_height = 202\<rparr>,
                 class_id = 0, class_name = ''person''\<rparr>]"
    by (simp add: filterDetections_eval)
  from r b have "\<exists>ds. filterDetections results th Wm Hm Wo Ho = Inr ds \<and>
      map bbox ds = map (scaled_box results Wm Hm Wo Ho) (kept_indices results th)"
    by blast
  then show ?thesis using e unfolding scaled_box_def scaled_def by blast
qed

text \<open>A record of class 16 on a 1920 by 1080 image: two of the four quotients are not
  whole numbers and are cut to 84 and 337.\<close>

theorem filterDetections_box_is_scaled_and_truncated_witness:
  "filterDetections (map f32 [100, 50, 300, 250, 0.75, 16]) (f32 0.25) 640 640 1920 1080 =
     Inr [\<lparr>confidence = f32 0.75,
           bbox = \<lparr>rect_x = 300, rect_y = 84, rect_width = 600, rect_height = 337\<rparr>,
           class_id = 16, class_name = ''dog''\<rparr>] \<and>
   kept_indices (map f32 [100, 50, 300, 250, 0.75, 16]) (f32 0.25) = [0] \<and>
   [\<lparr>rect_x = 300, rect_y = 84, rect_width = 600, rect_height = 337\<rparr>] =
     [\<lparr>rect_x = int_of (fdiv (fmul (f32 100) (f32 1920)) (f32 640)),
       rect_y = int_of (fdiv (fmul (f32 50) (f32 1080)) (f32 640)),
       rect_width = int_of (fdiv (fmul (fsub (f32 300) (f32 100)) (f32 1920)) (f32 640)),
       rect_height = int_of (fdiv (fmul (fsub (f32 250) (f32 50)) (f32 1080)) (f32 640))\<rparr>]"
proof -
  let ?r = "map f32 [100, 50, 300, 250, 0.75, 16]"
  have e: "filterDetections ?r (f32 0.25) 640 640 1920 1080 =
     Inr [\<lparr>confidence = f32 0.75,
           bbox = \<lparr>rect_x = 300, rect_y = 84, rect_width = 600, rect_height = 337\<rparr>,
           class_id = 16, class_name = ''dog''\<rparr>]"
    by (simp add: filterDetections_eval)
  then have d: "\<forall>i < length ?r div 6. record_defined ?r (f32 0.25) 640 640 1920 1080 i"
    unfolding filterDetections_Inr_iff by blast
  have k: "kept_indices ?r (f32 0.25) = [0]"
    by (simp add: kept_indices_def f32_eval)
  from filterDetections_box_is_scaled_and_truncated[OF d] e k show ?thesis
    by auto
qed

text \<open>The claim as first stated, with the exact product and quotient, fails for a record
  whose left edge is \<open>27.666666f\<close> on a 1920 wide image: the rounded product is 53120 and
  the code gives \<open>x = 83\<close>, while the exact value is just below 83 and truncates to
  82.\<close>

theorem exact_scaling_differs_from_float_scaling:
  "filterDetections (map f32 [27.666666, 10, 100, 100, 0.9, 0]) (f32 0.5) 640 640 1920 1080 =
     Inr [\<lparr>confidence = f32 0.9,
           bbox = \<lparr>rect_x = 83, rect_y = 16, rect_width = 217, rect_height = 151\<rparr>,
           class_id = 0, class_name = ''person''\<rparr>] \<and>
   trunc (value_of (f32 27.666666) * 1920 / 640) = 82"
  by (simp add: filterDetections_eval value_of_def)

section \<open>Order of the detections\<close>

text \<open>Claim C6.  Whenever \<open>filterDetections\<close> returns, the detections are those of the
  kept records taken in increasing record number: of two detections, the earlier one comes
  from the record that is earlier in the buffer.  Nothing is sorted by confidence.\<close>

theorem filterDetections_keeps_buffer_order:
  assumes "filterDetections results th iw ih ow oh = Inr ds"
  shows "ds = map (detection_at results iw ih ow oh) (kept_indices results th) \<and>
         sorted_wrt (<) (kept_indices results th) \<and>
         (\<forall>k < length ds. \<forall>l < length ds. k < l \<longrightarrow>
            ds ! k = detection_at results iw ih ow oh (kept_indices results th ! k) \<and>
            ds ! l = detection_at results iw ih ow oh (kept_indices results th ! l) \<and>
            kept_indices results th ! k < kept_indices results th ! l)"
proof -
  from assms have ds: "ds = map (detection_at results iw ih ow oh) (kept_indices results th)"
    by (simp add: filterDetections_Inr_iff)
  have s: "sorted_wrt (<) (kept_indices results th)" by (rule sorted_kept_indices)
  have "kept_indices results th ! k < kept_indices results th ! l"
    if "k < l" "l < length ds" for k l
    using that s ds by (simp add: sorted_wrt_iff_nth_less)
  with ds s show ?thesis by simp
qed

text \<open>Three records with confidences 0.6, 0.2 and 0.9: records 0 and 2 are kept, and
  the one of confidence 0.6 stays ahead of the one of confidence 0.9.\<close>

theorem filterDetections_keeps_buffer_order_witness:
  "filterDetections (map f32 [1, 1, 2, 2, 0.6, 0, 3, 3, 4, 4, 0.2, 1, 5, 5, 6, 6, 0.9, 2])
     (f32 0.5) 640 640 640 640 =
     Inr [\<lparr>confidence = f32 0.6,
           bbox = \<lparr>rect_x = 1, rect_y = 1, rect_width = 1, rect_height = 1\<rparr>,
           class_id = 0, class_name = ''person''\<rparr>,
          \<lparr>confidence = f32 0.9,
           bbox = \<lparr>rect_x = 5, rect_y = 5, rect_width = 1, rect_height = 1\<rparr>,
           class_id = 2, class_name = ''car''\<rparr>] \<and>
   kept_indices (map f32 [1, 1, 2, 2, 0.6, 0, 3, 3, 4, 4, 0.2, 1, 5, 5, 6, 6, 0.9, 2])
     (f32 0.5) = [0, 2] \<and>
   sorted_wrt (<)
     (kept_indices (map f32 [1, 1, 2, 2, 0.6, 0, 3, 3, 4, 4, 0.2, 1, 5, 5, 6, 6, 0.9, 2])
        (f32 0.5))"
proof -
  let ?r = "map f32 [1, 1, 2, 2, 0.6, 0, 3, 3, 4, 4, 0.2, 1, 5, 5, 6, 6, 0.9, 2]"
  have e: "filterDetections ?r (f32 0.5) 640 640 640 640 =
     Inr [\<lparr>confidence = f32 0.6,
           bbox = \<lparr>rect_x = 1, rect_y = 1, rect_width = 1, rect_height = 1\<rparr>,
           class_id = 0, class_name = ''person''\<rparr>,
          \<lparr>confidence = f32 0.9,
           bbox = \<lparr>rect_x = 5, rect_y = 5, rect_width = 1, rect_height = 1\<rparr>,
           class_id = 2, class_name = ''car''\<rparr>]"
    by (simp add: filterDetections_eval)
  have u: "[0..<3] = [0, 1, 2 :: nat]" by code_simp
  have k: "kept_indices ?r (f32 0.5) = [0, 2]"
    by (simp add: kept_indices_def f32_eval u)
  from filterDetections_keeps_buffer_order[OF e] e k show ?thesis by simp
qed

section \<open>No clamping of the boxes\<close>

text \<open>Claim C9, as amended.  On every buffer that the loop passes without undefined
  behaviour, \<open>filterDetections\<close> returns, and the box of each detection is the scaled and
  truncated box of its record, unchanged: nothing is clamped to the image and nothing is
  validated.  With sizes that are not negative, a record with \<open>right < left\<close> gets a width
  that is at most zero, and a record with \<open>bottom < top\<close> a height that is at most zero.
  No buffer and no arguments make \<open>filterDetections\<close> throw.\<close>

theorem filterDetections_does_not_clamp:
  assumes "\<forall>i < length results div 6. record_defined results th Wm Hm Wo Ho i"
  shows "(\<exists>ds. filterDetections results th Wm Hm Wo Ho = Inr ds \<and>
            map bbox ds = map (scaled_box results Wm Hm Wo Ho) (kept_indices results th)) \<and>
         (\<forall>i. 0 \<le> Wm \<and> 0 \<le> Wo \<and> flt (results ! (i * 6 + 2)) (results ! (i * 6)) \<longrightarrow>
            rect_width (scaled_box results Wm Hm Wo Ho i) \<le> 0) \<and>
         (\<forall>i. 0 \<le> Hm \<and> 0 \<le> Ho \<and> flt (results ! (i * 6 + 3)) (results ! (i * 6 + 1)) \<longrightarrow>
            rect_height (scaled_box results Wm Hm Wo Ho i) \<le> 0) \<and>
         (\<forall>buffer t a b c d what. filterDetections buffer t a b c d \<noteq> Inl (Exception what))"
proof -
  let ?ds = "map (detection_at results Wm Hm Wo Ho) (kept_indices results th)"
  have r: "filterDetections results th Wm Hm Wo Ho = Inr ?ds"
    using assms by (rule filterDetections_defined)
  have b: "map bbox ?ds = map (scaled_box results Wm Hm Wo Ho) (kept_indices results th)"
    by (simp add: detection_at_def o_def)
  have w: "rect_width (scaled_box results Wm Hm Wo Ho i) \<le> 0"
    if "0 \<le> Wm" "0 \<le> Wo" "flt (results ! (i * 6 + 2)) (results ! (i * 6))" for i
    using scaled_not_positive[OF fsub_not_positive[OF that(3)] that(2,1)]
    by (simp add: scaled_box_def)
  have h: "rect_height (scaled_box results Wm Hm Wo Ho i) \<le> 0"
    if "0 \<le> Hm" "0 \<le> Ho" "flt (results ! (i * 6 + 3)) (results ! (i * 6 + 1))" for i
    using scaled_not_positive[OF fsub_not_positive[OF that(3)] that(2,1)]
    by (simp add: scaled_box_def)
  from r b have "\<exists>ds. filterDetections results th Wm Hm Wo Ho = Inr ds \<and>
            map bbox ds = map (scaled_box results Wm Hm Wo Ho) (kept_indices results th)"
    by blast
  with w h show ?thesis by (simp add: filterDetections_no_exception)
qed

text \<open>On a 1280 by 720 image: the first box starts left of and above the image and is
  4020 wide; the second record has \<open>right < left\<close> and \<open>bottom < top\<close> and gets width
  \<open>- 100\<close> and height \<open>- 67\<close>.\<close>

theorem filterDetections_does_not_clamp_witness:
  "filterDetections (map f32 [- 10, - 5, 2000, 3, 0.9, 0, 100, 100, 50, 40, 0.8, 1]) (f32 0.5)
     640 640 1280 720 =
     Inr [\<lparr>confidence = f32 0.9,
           bbox = \<lparr>rect_x = - 20, rect_y = - 5, rect_width = 4020, rect_height = 9\<rparr>,
           class_id = 0, class_name = ''person''\<rparr>,
          \<lparr>confidence = f32 0.8,
           bbox = \<lparr>rect_x = 200, rect_y = 112, rect_width = - 100, rect_height = - 67\<rparr>,
           class_id = 1, class_name = ''bicycle''\<rparr>] \<and>
   flt (f32 50) (f32 100) \<and> flt (f32 40) (f32 100) \<and>
   rect_width
     (scaled_box (map f32 [- 10, - 5, 2000, 3, 0.9, 0, 100, 100, 50, 40, 0.8, 1])
        640 640 1280 720 1) \<le> 0 \<and>
   rect_height
     (scaled_box (map f32 [- 10, - 5, 2000, 3, 0.9, 0, 100, 100, 50, 40, 0.8, 1])
        640 640 1280 720 1) \<le> 0"
proof -
  let ?r = "map f32 [- 10, - 5, 2000, 3, 0.9, 0, 100, 100, 50, 40, 0.8, 1]"
  have e: "filterDetections ?r (f32 0.5) 640 640 1280 720 =
     Inr [\<lparr>confidence = f32 0.9,
           bbox = \<lparr>rect_x = - 20, rect_y = - 5, rect_width = 4020, rect_height = 9\<rparr>,
           class_id = 0, class_name = ''person''\<rparr>,
          \<lparr>confidence = f32 0.8,
           bbox = \<lparr>rect_x = 200, rect_y = 112, rect_width = - 100, rect_height = - 67\<rparr>,
           class_id = 1, class_name = ''bicycle''\<rparr>]"
    by (simp add: filterDetections_eval)
  then have d: "\<forall>i < length ?r div 6. record_defined ?r (f32 0.5) 640 640 1280 720 i"
    unfolding filterDetections_Inr_iff by blast
  have f: "flt (f32 50) (f32 100)" "flt (f32 40) (f32 100)"
    by (simp_all add: f32_eval)
  have rl: "flt (?r ! (1 * 6 + 2)) (?r ! (1 * 6))" "flt (?r ! (1 * 6 + 3)) (?r ! (1 * 6 + 1))"
    using f by simp_all
  note t = filterDetections_does_not_clamp[OF d]
  from t rl(1) have "rect_width (scaled_box ?r 640 640 1280 720 1) \<le> 0" by simp
  moreover from t rl(2) have "rect_height (scaled_box ?r 640 640 1280 720 1) \<le> 0" by simp
  ultimately show ?thesis using e f by simp
qed

text \<open>The claim as first stated fails for a record whose right edge is half a model
  pixel left of its left edge: the width is \<open>0\<close>, not negative.\<close>

theorem inverted_box_of_width_zero:
  "flt (f32 0) (f32 0.5) \<and>
   filterDetections (map f32 [0.5, 0, 0, 10, 0.9, 0]) (f32 0.5) 640 640 640 640 =
     Inr [\<lparr>confidence = f32 0.9,
           bbox = \<lparr>rect_x = 0, rect_y = 0, rect_width = 0, rect_height = 10\<rparr>,
           class_id = 0, class_name = ''person''\<rparr>]"
  by (simp add: filterDetections_eval)

section \<open>Class ids outside the table\<close>

text \<open>Claim C4.  A kept record with class id 80 makes \<open>filterDetections\<close> read
  \<open>CLASS_NAMES[80]\<close> in a vector of 80 entries, unchecked: the behaviour is undefined, and
  no exception that the \<open>catch\<close> of \<open>main\<close> could report is thrown.\<close>

theorem class_id_80_is_read_out_of_bounds:
  "filterDetections (map f32 [0, 0, 10, 10, 0.9, 80]) (f32 0.5) 640 640 640 640 = Inl Undefined"
  by (simp add: filterDetections_eval)

text \<open>In the runs that return, every detection has a class id inside the table and
  the name found there.\<close>

lemma filterDetections_class_id_in_table:
  assumes "filterDetections results th iw ih ow oh = Inr ds" "d \<in> set ds"
  shows "0 \<le> class_id d \<and> class_id d < 80 \<and> class_name d = CLASS_NAMES ! nat (class_id d)"
proof -
  from assms(1) have ds: "ds = map (detection_at results iw ih ow oh) (kept_indices results th)"
    and rd: "\<forall>i < length results div 6. record_defined results th iw ih ow oh i"
    by (simp_all add: filterDetections_Inr_iff)
  from assms(2) ds obtain i where i: "i \<in> set (kept_indices results th)"
    and d: "d = detection_at results iw ih ow oh i" by auto
  from i rd have "record_defined results th iw ih ow oh i" "fge (results ! (i * 6 + 4)) th"
    by (simp_all add: set_kept_indices)
  then show ?thesis unfolding d by (simp add: record_defined_def detection_at_def)
qed

section \<open>Buffers that are not a whole number of records\<close>

lemma take_records:
  assumes "i < length results div 6" "k \<le> 5"
  shows "take (length results div 6 * 6) results ! (i * 6 + k) = results ! (i * 6 + k)"
  using assms by simp

lemma length_take_records:
  "length (take (length results div 6 * 6) results) div 6 = length results div 6"
  by (simp add: min_absorb2)

text \<open>Claim C3, as amended.  \<open>filterDetections\<close> works on the first
  \<open>length div 6\<close> complete records only: the result is that of the buffer cut after
  its last complete record, so up to five trailing floats are ignored, and no exception
  is thrown whatever the length.\<close>

theorem filterDetections_ignores_incomplete_record:
  "filterDetections results th iw ih ow oh =
     filterDetections (take (length results div 6 * 6) results) th iw ih ow oh \<and>
   filterDetections results th iw ih ow oh \<noteq> Inl (Exception what)"
proof -
  let ?r = "take (length results div 6 * 6) results"
  have n: "length ?r div 6 = length results div 6" by (rule length_take_records)
  have at: "?r ! (i * 6 + k) = results ! (i * 6 + k)" if "i < length results div 6" "k \<le> 5" for i k
    using that by (rule take_records)
  have at0: "?r ! (i * 6) = results ! (i * 6)" if "i < length results div 6" for i
    using at[OF that, of 0] by simp
  have rd: "record_defined ?r th iw ih ow oh i = record_defined results th iw ih ow oh i"
    if "i < length results div 6" for i
    using at[OF that, of 1] at[OF that, of 2] at[OF that, of 3] at[OF that, of 4]
      at[OF that, of 5] at0[OF that]
    by (simp add: record_defined_def)
  have da: "detection_at ?r iw ih ow oh i = detection_at results iw ih ow oh i"
    if "i < length results div 6" for i
    using at[OF that, of 1] at[OF that, of 2] at[OF that, of 3] at[OF that, of 4]
      at[OF that, of 5] at0[OF that]
    by (simp add: detection_at_def scaled_box_def)
  have ki: "kept_indices ?r th = kept_indices results th"
    unfolding kept_indices_def n using at[of _ 4] by (auto intro: filter_cong)
  have m: "map (detection_at ?r iw ih ow oh) (kept_indices results th) =
           map (detection_at results iw ih ow oh) (kept_indices results th)"
    using da by (auto simp: set_kept_indices)
  have iff: "filterDetections ?r th iw ih ow oh = Inr ds \<longleftrightarrow>
             filterDetections results th iw ih ow oh = Inr ds" for ds
    unfolding filterDetections_Inr_iff n ki m using rd by auto
  have ne: "filterDetections buffer th iw ih ow oh = Inl e \<Longrightarrow> e = Undefined" for buffer e
    using filterDetections_no_exception[of buffer th iw ih ow oh] by (cases e) auto
  have "filterDetections results th iw ih ow oh = filterDetections ?r th iw ih ow oh"
  proof (cases "filterDetections results th iw ih ow oh")
    case (Inr ds)
    with iff[of ds] show ?thesis by simp
  next
    case (Inl e)
    show ?thesis
    proof (cases "filterDetections ?r th iw ih ow oh")
      case (Inr ds)
      with iff[of ds] Inl show ?thesis by simp
    next
      case l: (Inl e')
      from ne[OF Inl] ne[OF l] Inl l show ?thesis by simp
    qed
  qed
  then show ?thesis by (simp add: filterDetections_no_exception)
qed

text \<open>The claim as first stated fails for a buffer of seven floats: the call returns the
  detection of the first six and drops the seventh.\<close>

theorem trailing_float_is_dropped_silently:
  "length (map f32 [320, 180, 640, 360, 0.92, 0, 7]) mod 6 \<noteq> 0 \<and>
   filterDetections (map f32 [320, 180, 640, 360, 0.92, 0, 7]) (f32 0.5) 640 640 1280 720 =
     Inr [\<lparr>confidence = f32 0.92,
           bbox = \<lparr>rect_x = 640, rect_y = 202, rect_width = 640, rect_height = 202\<rparr>,
           class_id = 0, class_name = ''person''\<rparr>]"
  by (simp add: filterDetections_eval)

section \<open>Layout of the input tensor\<close>




section \<open>Runs in the world of one-colour images\<close>

lemma filterDetections_Nil: "filterDetections [] th iw ih ow oh = Inr []"
  by (simp add: filterDetections_Inr_iff kept_indices_def)

lemma solid_world_preprocessImage:
  "preprocessImage (solid_world output) image_path [1, 3, 640, 640] =
     Inr (plane (solid 640 640 10 20 30) 0 @ plane (solid 640 640 10 20 30) 1 @
          plane (solid 640 640 10 20 30) 2, 1280, 720)"
proof -
  have a: "\<not> empty (imread (solid_world output) image_path)"
    by (simp add: solid_world_def empty_def solid_def)
  have b: "4 \<le> length [1, 3, 640, 640 :: int]" by simp
  have c: "resize (solid_world output) (imread (solid_world output) image_path)
             ([1, 3, 640, 640] ! 2) ([1, 3, 640, 640] ! 3) = Inr (solid 640 640 10 20 30)"
    by (simp add: solid_world_def)
  have "resized_to (solid (nat 640) (nat 640) 10 20 30) 640 640"
    by (rule resized_to_solid) simp_all
  then have d: "resized_to (solid 640 640 10 20 30) ([1, 3, 640, 640] ! 2) ([1, 3, 640, 640] ! 3)"
    by simp
  show ?thesis
    using preprocessImage_planes[OF a b c d] by (simp add: solid_world_def solid_def)
qed

section \<open>The entry point\<close>

text \<open>Claim C8.  With any number of arguments after the program name other than two,
  \<open>main\<close> prints the usage line to standard error and returns 1, and does nothing
  else: no model is loaded, no image is read, nothing is printed to standard output and no
  file is written, whatever the world.\<close>

theorem main_wrong_argument_count:
  assumes "length args \<noteq> 2"
  shows "main w prog args =
           \<lparr>exit_code = Some 1,
            actions = [PrintError (''Usage: '' @ prog @ '' <model_path> <image_path>'')]\<rparr>"
  using assms by (simp add: main_def)

text \<open>One argument, and three.\<close>

theorem main_wrong_argument_count_witness:
  "main (solid_world (map f32 [320, 180, 640, 360, 0.92, 0])) ''./yolov10'' [''yolov10n.onnx''] =
     \<lparr>exit_code = Some 1,
      actions = [PrintError ''Usage: ./yolov10 <model_path> <image_path>'']\<rparr> \<and>
   main (solid_world (map f32 [320, 180, 640, 360, 0.92, 0])) ''./yolov10''
        [''yolov10n.onnx'', ''bus.jpg'', ''0.25''] =
     \<lparr>exit_code = Some 1,
      actions = [PrintError ''Usage: ./yolov10 <model_path> <image_path>'']\<rparr>"
  using main_wrong_argument_count[of "[''yolov10n.onnx'']"
          "solid_world (map f32 [320, 180, 640, 360, 0.92, 0])" "''./yolov10''"]
        main_wrong_argument_count[of "[''yolov10n.onnx'', ''bus.jpg'', ''0.25'']"
          "solid_world (map f32 [320, 180, 640, 360, 0.92, 0])" "''./yolov10''"]
  by simp

text \<open>Claim C7.  An empty raw buffer gives the empty list of detections, whatever the
  other arguments.  When the model loads, the image is preprocessed and inference
  returns the empty buffer, \<open>main\<close> returns 0, prints no detection, draws nothing and
  writes the image it read from the image path, unchanged, to \<open>result.jpg\<close>.\<close>

theorem empty_output_writes_unannotated_copy:
  assumes "loadModel w model_path = Inr session"
    and "preprocessImage w image_path [1, 3, 640, 640] = Inr (tensor, orig_width, orig_height)"
    and "runInference w session tensor [1, 3, 640, 640] = Inr []"
  shows "filterDetections [] th iw ih ow oh = Inr [] \<and>
         main w prog [model_path, image_path] =
           \<lparr>exit_code = Some 0,
            actions = [LoadModel model_path, Preprocess image_path [1, 3, 640, 640],
                       RunInference [1, 3, 640, 640], ReadImage image_path,
                       Filter (Finite (1 / 2)) 640 640 orig_width orig_height,
                       WriteImage ''result.jpg'' (imread w image_path) []]\<rparr>"
  using assms by (simp add: main_def try_block_def Let_def filterDetections_Nil f32_half)

text \<open>The world of one-colour images with a model that answers with the empty buffer.\<close>

theorem empty_output_writes_unannotated_copy_witness:
  "main (solid_world []) ''./yolov10'' [''yolov10n.onnx'', ''bus.jpg''] =
     \<lparr>exit_code = Some 0,
      actions = [LoadModel ''yolov10n.onnx'', Preprocess ''bus.jpg'' [1, 3, 640, 640],
                 RunInference [1, 3, 640, 640], ReadImage ''bus.jpg'',
                 Filter (Finite (1 / 2)) 640 640 1280 720,
                 WriteImage ''result.jpg'' (solid 720 1280 10 20 30) []]\<rparr>"
proof -
  have a: "loadModel (solid_world []) ''yolov10n.onnx'' = Inr ''yolov10n.onnx''"
    by (simp add: loadModel_def solid_world_def)
  have c: "runInference (solid_world []) ''yolov10n.onnx''
             (plane (solid 640 640 10 20 30) 0 @ plane (solid 640 640 10 20 30) 1 @
              plane (solid 640 640 10 20 30) 2) [1, 3, 640, 640] = Inr []"
    by (simp add: runInference_def lib_def solid_world_def)
  have i: "imread (solid_world []) ''bus.jpg'' = solid 720 1280 10 20 30"
    by (simp add: solid_world_def)
  from empty_output_writes_unannotated_copy[OF a solid_world_preprocessImage c]
  show ?thesis by (simp add: i)
qed

section \<open>The constants of the entry point\<close>

lemma loadModel_Inr: "loadModel w model_path = Inr session \<Longrightarrow> session = model_path"
  by (simp add: loadModel_def split: option.splits)

lemma try_block_fixed_constants:
  "a \<in> set (fst (try_block w model_path image_path)) \<Longrightarrow> uses_fixed_constants a"
  by (auto simp: try_block_def Let_def uses_fixed_constants_def f32_half
      split: sum.splits prod.splits)

lemma try_block_Inr:
  assumes "snd (try_block w model_path image_path) = Inr u"
  shows "\<exists>tensor ow oh results ds.
           preprocessImage w image_path [1, 3, 640, 640] = Inr (tensor, ow, oh) \<and>
           runInference w model_path tensor [1, 3, 640, 640] = Inr results \<and>
           filterDetections results (Finite (1 / 2)) 640 640 ow oh = Inr ds \<and>
           fst (try_block w model_path image_path) =
             [LoadModel model_path, Preprocess image_path [1, 3, 640, 640],
              RunInference [1, 3, 640, 640], ReadImage image_path,
              Filter (Finite (1 / 2)) 640 640 ow oh] @
             map PrintDetection ds @
             [WriteImage ''result.jpg'' (imread w image_path)
                (concat (map (draw_detection w) ds))]"
  using assms
  by (auto simp: try_block_def Let_def f32_half split: sum.splits prod.splits
      dest: loadModel_Inr)

text \<open>Claim C10.  Whatever the world, the program name and the arguments, every call
  \<open>main\<close> makes to preprocessing and to inference carries the shape
  \<open>{1, 3, 640, 640}\<close>, and every call to filtering carries the threshold \<open>0.5\<close> and
  the model size 640 by 640.  A run that returns 0 had two arguments and printed exactly the
  detections \<open>filterDetections\<close> gives, at threshold \<open>0.5\<close> and model size 640 by 640,
  for what inference returned on the tensor preprocessed with that shape.  The arguments
  supply the two paths and nothing else.\<close>

theorem main_fixes_threshold_and_input_shape:
  "(\<forall>a \<in> set (actions (main w prog args)). uses_fixed_constants a) \<and>
   (exit_code (main w prog args) = Some 0 \<longrightarrow>
      (\<exists>tensor ow oh results ds.
         length args = 2 \<and>
         preprocessImage w (args ! 1) [1, 3, 640, 640] = Inr (tensor, ow, oh) \<and>
         runInference w (args ! 0) tensor [1, 3, 640, 640] = Inr results \<and>
         filterDetections results (Finite (1 / 2)) 640 640 ow oh = Inr ds \<and>
         actions (main w prog args) =
           [LoadModel (args ! 0), Preprocess (args ! 1) [1, 3, 640, 640],
            RunInference [1, 3, 640, 640], ReadImage (args ! 1),
            Filter (Finite (1 / 2)) 640 640 ow oh] @
           map PrintDetection ds @
           [WriteImage ''result.jpg'' (imread w (args ! 1))
              (concat (map (draw_detection w) ds))]))"
proof (cases "length args = 2")
  case False
  then show ?thesis by (simp add: main_def uses_fixed_constants_def)
next
  case True
  obtain acts r where t: "try_block w (args ! 0) (args ! 1) = (acts, r)"
    by (cases "try_block w (args ! 0) (args ! 1)")
  have fixed: "\<forall>a \<in> set acts. uses_fixed_constants a"
    using try_block_fixed_constants[of _ w "args ! 0" "args ! 1"] t by simp
  show ?thesis
  proof (cases r)
    case (Inr u)
    with t have "snd (try_block w (args ! 0) (args ! 1)) = Inr u" by simp
    from try_block_Inr[OF this] t Inr True fixed show ?thesis
      by (simp add: main_def)
  next
    case (Inl e)
    with t True fixed show ?thesis
      by (cases e) (simp_all add: main_def uses_fixed_constants_def)
  qed
qed

text \<open>A whole run in the world of one-colour images, the model answering with one
  record.\<close>

theorem main_fixes_threshold_and_input_shape_witness:
  "main (solid_world (map f32 [320, 180, 640, 360, 0.92, 0])) ''./yolov10'' [''yolov10n.onnx'', ''bus.jpg''] =
     \<lparr>exit_code = Some 0,
      actions = [LoadModel ''yolov10n.onnx'', Preprocess ''bus.jpg'' [1, 3, 640, 640],
                 RunInference [1, 3, 640, 640], ReadImage ''bus.jpg'',
                 Filter (Finite (1 / 2)) 640 640 1280 720,
                 PrintDetection
                   \<lparr>confidence = f32 0.92,
                    bbox = \<lparr>rect_x = 640, rect_y = 202, rect_width = 640, rect_height = 202\<rparr>,
                    class_id = 0, class_name = ''person''\<rparr>,
                 WriteImage ''result.jpg'' (solid 720 1280 10 20 30)
                   [Rectangle \<lparr>rect_x = 640, rect_y = 202, rect_width = 640, rect_height = 202\<rparr>,
                    FilledRectangle (640, 190) (740, 206),
                    PutText ''person: 0.920000'' (640, 202)]]\<rparr> \<and>
   uses_fixed_constants (Preprocess ''bus.jpg'' [1, 3, 640, 640]) \<and>
   uses_fixed_constants (RunInference [1, 3, 640, 640]) \<and>
   uses_fixed_constants (Filter (Finite (1 / 2)) 640 640 1280 720)"
proof -
  let ?w = "solid_world (map f32 [320, 180, 640, 360, 0.92, 0])"
  have f: "filterDetections (map f32 [320, 180, 640, 360, 23 / 25, 0]) (Finite (1 / 2))
             640 640 1280 720 =
     Inr [\<lparr>confidence = f32 (23 / 25),
           bbox = \<lparr>rect_x = 640, rect_y = 202, rect_width = 640, rect_height = 202\<rparr>,
           class_id = 0, class_name = ''person''\<rparr>]"
    by (simp add: filterDetections_eval)
  have l: "loadModel (solid_world out) path = Inr path" for out path
    by (simp add: loadModel_def solid_world_def)
  have r: "runInference (solid_world out) session tensor shape = Inr out"
    for out session tensor shape
    by (simp add: runInference_def lib_def solid_world_def)
  have d: "draw_detection (solid_world out) det =
           [Rectangle (bbox det),
            FilledRectangle (rect_x (bbox det), rect_y (bbox det) - 12)
                            (rect_x (bbox det) + 100, rect_y (bbox det) + 4),
            PutText (class_name det @ '': 0.920000'') (rect_x (bbox det), rect_y (bbox det))]"
    for out det
    by (simp add: draw_detection_def solid_world_def Let_def)
  have i: "imread (solid_world out) path = solid 720 1280 10 20 30" for out path
    by (simp add: solid_world_def)
  have m: "main ?w ''./yolov10'' [''yolov10n.onnx'', ''bus.jpg''] =
     \<lparr>exit_code = Some 0,
      actions = [LoadModel ''yolov10n.onnx'', Preprocess ''bus.jpg'' [1, 3, 640, 640],
                 RunInference [1, 3, 640, 640], ReadImage ''bus.jpg'',
                 Filter (Finite (1 / 2)) 640 640 1280 720,
                 PrintDetection
                   \<lparr>confidence = f32 0.92,
                    bbox = \<lparr>rect_x = 640, rect_y = 202, rect_width = 640, rect_height = 202\<rparr>,
                    class_id = 0, class_name = ''person''\<rparr>,
                 WriteImage ''result.jpg'' (solid 720 1280 10 20 30)
                   [Rectangle \<lparr>rect_x = 640, rect_y = 202, rect_width = 640, rect_height = 202\<rparr>,
                    FilledRectangle (640, 190) (740, 206),
                    PutText ''person: 0.920000'' (640, 202)]]\<rparr>"
    by (simp add: main_def try_block_def Let_def l solid_world_preprocessImage r f d i
        f32_half del: list.map, simp add: d)
  from main_fixes_threshold_and_input_shape[of ?w "''./yolov10''" "[''yolov10n.onnx'', ''bus.jpg'']"]
  have "\<forall>a \<in> set (actions (main ?w ''./yolov10'' [''yolov10n.onnx'', ''bus.jpg''])).
          uses_fixed_constants a" by blast
  then show ?thesis unfolding m by simp
qed

end
